theory Spec2Isabelle
  imports Main
begin

section \<open>redisgo: a singleton wrapper around a pooled Redis client\<close>

text \<open>
  The package \<open>redisgo\<close> (file \<open>redis.go\<close>) keeps one process-wide \<open>*Redis\<close> handle,
  created by \<open>New\<close> under a \<open>sync.Once\<close>, and offers typed helpers that each send
  commands through \<open>r.Do\<close>.  The wire client (package \<open>redigo/redis\<close>), the JSON
  codec (package \<open>encoding/json\<close>) and the remote store are not part of the package:
  they appear below as the fields of a record of collaborators, and every function
  of the package takes that record as its first argument.
\<close>

subsection \<open>Go values\<close>

text \<open>
  A Go \<open>error\<close> is \<open>error option\<close>, with \<open>None\<close> for \<open>nil\<close>.  A value of type
  \<open>interface{}\<close> passed by a caller is a \<open>gvalue\<close>; a reply of the client is a
  \<open>reply\<close>.  Go's \<open>int\<close> and \<open>int64\<close> are modelled by \<open>int\<close>: the package does
  no arithmetic on them, it only compares \<open>expire\<close> with \<open>0\<close> and forwards them.
\<close>

datatype error = Error string

datatype gvalue =
    VNil
  | VString string
  | VInt int
  | VInt64 int
  | VBool bool
  | VList "gvalue list"
  | VStruct "(string \<times> gvalue) list"
  | VChan nat

datatype reply =
    RNil
  | RInt int
  | RBulk string
  | RStatus string
  | RArray "reply list"

type_synonym command = "string \<times> gvalue list"

subsection \<open>The singleton: \<open>redisInstance\<close>, \<open>once\<close>, \<open>New\<close>, \<open>GetInstance\<close>\<close>

text \<open>
  Pointers are addresses into two heaps of the process, one of \<open>redis.Pool\<close> objects
  and one of \<open>Redis\<close> objects; an address is the index of the object in its heap,
  and allocation appends.  The closures \<open>Dial\<close> and \<open>TestOnBorrow\<close> of the pool are
  represented by the variables \<open>Dial\<close> captures (\<open>ip\<close>, \<open>port\<close>, \<open>password\<close>,
  \<open>db\<close>).  The goroutine started by \<open>closePool\<close> is recorded in \<open>watchers\<close>.
\<close>

type_synonym addr = nat

definition Second :: int where
  "Second = 1000000000"

record Pool =
  MaxIdle :: int
  IdleTimeout :: int
  Dial_ip :: string
  Dial_port :: int
  Dial_password :: string
  Dial_db :: int

record Redis =
  pool :: addr

record process =
  redisInstance :: "addr option"
  once :: bool
  pools :: "Pool list"
  handles :: "Redis list"
  watchers :: "addr list"

definition init_process :: process where
  "init_process =
     \<lparr>redisInstance = None, once = False, pools = [], handles = [], watchers = []\<rparr>"

definition closePool :: "addr \<Rightarrow> process \<Rightarrow> process" where
  "closePool r s = s\<lparr>watchers := watchers s @ [r]\<rparr>"

text \<open>\<open>once.Do(f)\<close>: \<open>f\<close> runs only if no earlier \<open>Do\<close> has run.\<close>

definition once_Do :: "(process \<Rightarrow> process) \<Rightarrow> process \<Rightarrow> process" where
  "once_Do f s = (if once s then s else (f s)\<lparr>once := True\<rparr>)"

definition New_body :: "string \<Rightarrow> int \<Rightarrow> string \<Rightarrow> int \<Rightarrow> process \<Rightarrow> process" where
  "New_body ip port password db s =
     (let p = length (pools s);
          s1 = s\<lparr>pools := pools s @
                 [\<lparr>MaxIdle = 3, IdleTimeout = 240 * Second,
                   Dial_ip = ip, Dial_port = port,
                   Dial_password = password, Dial_db = db\<rparr>]\<rparr>;
          h = length (handles s1);
          s2 = s1\<lparr>handles := handles s1 @ [\<lparr>pool = p\<rparr>], redisInstance := Some h\<rparr>
      in closePool h s2)"

definition New :: "process \<Rightarrow> string \<Rightarrow> int \<Rightarrow> string \<Rightarrow> int \<Rightarrow> addr option \<times> process" where
  "New s ip port password db =
     (let s' = once_Do (New_body ip port password db) s
      in (redisInstance s', s'))"

datatype panic = Panic_call_New_first

definition GetInstance :: "process \<Rightarrow> panic + addr" where
  "GetInstance s =
     (case redisInstance s of
        None \<Rightarrow> Inl Panic_call_New_first
      | Some r \<Rightarrow> Inr r)"

text \<open>A caller making a sequence of calls to \<open>New\<close>, each with its own arguments.\<close>

type_synonym new_args = "string \<times> int \<times> string \<times> int"

fun New_calls :: "process \<Rightarrow> new_args list \<Rightarrow> addr option list \<times> process" where
  "New_calls s [] = ([], s)"
| "New_calls s ((ip, port, password, db) # cs) =
     (let (r, s1) = New s ip port password db;
          (rs, s2) = New_calls s1 cs
      in (r # rs, s2))"

subsection \<open>The collaborators\<close>

text \<open>
  What the package calls and does not define.  \<open>conn_Do\<close> is one round trip on a
  connection borrowed from \<open>r.pool\<close> (\<open>pool.Get\<close>, \<open>conn.Do\<close>, and the deferred
  \<open>conn.Close\<close>), acting on the state \<open>'w\<close> of the pool and the remote store.  The
  other fields are the reply converters and argument helpers of the client and
  the two functions of the JSON codec.  A function that writes through a pointer
  argument (\<open>json.Unmarshal\<close>, \<open>redis.ScanStruct\<close>) takes the content of the
  caller's location and returns the new content.
\<close>

record 'w collaborators =
  conn_Do :: "'w \<Rightarrow> string \<Rightarrow> gvalue list \<Rightarrow> (reply \<times> error option) \<times> 'w"
  redis_String :: "reply \<times> error option \<Rightarrow> string \<times> error option"
  redis_Int :: "reply \<times> error option \<Rightarrow> int \<times> error option"
  redis_Bool :: "reply \<times> error option \<Rightarrow> bool \<times> error option"
  redis_Values :: "reply \<times> error option \<Rightarrow> reply list \<times> error option"
  redis_ScanStruct :: "reply list \<Rightarrow> gvalue \<Rightarrow> gvalue \<times> error option"
  Args_Add :: "gvalue list \<Rightarrow> gvalue \<Rightarrow> gvalue list"
  Args_AddFlat :: "gvalue list \<Rightarrow> gvalue \<Rightarrow> gvalue list"
  json_Marshal :: "gvalue \<Rightarrow> string \<times> error option"
  json_Unmarshal :: "string \<Rightarrow> gvalue \<Rightarrow> gvalue \<times> error option"

text \<open>
  The world an operation runs in: the state of the pool and the remote store, the
  commands sent so far (appended by \<open>Do\<close>, read by no function of the package),
  and the lines written to standard output.
\<close>

record 'w world =
  remote :: 'w
  issued :: "command list"
  stdout :: "string list"

fun error_text :: "error \<Rightarrow> string" where
  "error_text (Error m) = m"

definition fmt_Println :: "error \<Rightarrow> 'w world \<Rightarrow> 'w world" where
  "fmt_Println e w = w\<lparr>stdout := stdout w @ [error_text e]\<rparr>"

subsection \<open>The operations\<close>

definition Do ::
  "'w collaborators \<Rightarrow> 'w world \<Rightarrow> string \<Rightarrow> gvalue list \<Rightarrow> (reply \<times> error option) \<times> 'w world"
where
  "Do L w commandName args =
     (let (res, rm) = conn_Do L (remote w) commandName args
      in (res, w\<lparr>remote := rm, issued := issued w @ [(commandName, args)]\<rparr>))"

definition GetString ::
  "'w collaborators \<Rightarrow> 'w world \<Rightarrow> string \<Rightarrow> (string \<times> error option) \<times> 'w world"
where
  "GetString L w key =
     (let (res, w1) = Do L w ''GET'' [VString key]
      in (redis_String L res, w1))"

definition GetInt ::
  "'w collaborators \<Rightarrow> 'w world \<Rightarrow> string \<Rightarrow> (int \<times> error option) \<times> 'w world"
where
  "GetInt L w key =
     (let (res, w1) = Do L w ''GET'' [VString key]
      in (redis_Int L res, w1))"

text \<open>
  \<open>Get\<close> returns the content of the caller's location \<open>val\<close> after the call and
  the named result \<open>err\<close>.  The result of \<open>json.Unmarshal\<close> is dropped.
\<close>

definition Get ::
  "'w collaborators \<Rightarrow> 'w world \<Rightarrow> string \<Rightarrow> gvalue \<Rightarrow> (gvalue \<times> error option) \<times> 'w world"
where
  "Get L w key val =
     (let ((reply, err), w1) = GetString L w key
      in if err \<noteq> None then ((val, err), w1)
         else (let (val', _) = json_Unmarshal L reply val
               in ((val', err), w1)))"

text \<open>
  \<open>Set\<close> has the named results \<open>reply\<close> and \<open>err\<close>, both \<open>nil\<close> at entry; the bare
  \<open>return\<close> after the switch returns them.  \<open>reply\<close> is never assigned.  In the
  \<open>string\<close> and \<open>int\<close> clauses \<open>_, err = r.Do(...)\<close> assigns the named result.  In
  the \<open>default\<close> clause \<open>b, err := json.Marshal(v)\<close> declares a new \<open>err\<close> local to
  the clause, and \<open>_, err = r.Do(...)\<close> assigns that one (\<open>err2\<close> below): the named
  result stays \<open>nil\<close>.
\<close>

definition Set ::
  "'w collaborators \<Rightarrow> 'w world \<Rightarrow> string \<Rightarrow> gvalue \<Rightarrow> int \<Rightarrow> (reply \<times> error option) \<times> 'w world"
where
  "Set L w key val expire =
     (case val of
        VString v \<Rightarrow>
          (let ((_, err), w1) = Do L w ''SETEX'' [VString key, VInt expire, VString v]
           in ((RNil, err), w1))
      | VInt v \<Rightarrow>
          (let ((_, err), w1) = Do L w ''SETEX'' [VString key, VInt expire, VInt v]
           in ((RNil, err), w1))
      | v \<Rightarrow>
          (let (b, err1) = json_Marshal L v;
               ((_, err2), w1) = Do L w ''SETEX'' [VString key, VInt expire, VString b]
           in ((RNil, None), w1)))"

definition Expire ::
  "'w collaborators \<Rightarrow> 'w world \<Rightarrow> string \<Rightarrow> int \<Rightarrow> error option \<times> 'w world"
where
  "Expire L w key expire =
     (let (res, w1) = Do L w ''EXPIRE'' [VString key, VInt expire];
          (_, err) = redis_Bool L res
      in (err, w1))"

definition Hmset ::
  "'w collaborators \<Rightarrow> 'w world \<Rightarrow> string \<Rightarrow> gvalue \<Rightarrow> int \<Rightarrow> error option \<times> 'w world"
where
  "Hmset L w key val expire =
     (let ((_, err), w1) =
            Do L w ''HMSET'' (Args_AddFlat L (Args_Add L [] (VString key)) val)
      in if err \<noteq> None then (err, w1)
         else if expire > 0 then
           (let ((_, err'), w2) = Do L w1 ''EXPIRE'' [VString key, VInt64 expire]
            in (err', w2))
         else (err, w1))"

text \<open>
  In \<open>Hmget\<close> the \<open>err\<close> of \<open>if err := redis.ScanStruct(v, val); err != nil\<close> is local
  to the \<open>if\<close> statement (\<open>err'\<close> below); the final \<open>return err\<close> returns the
  \<open>err\<close> of \<open>redis.Values\<close>.
\<close>

definition Hmget ::
  "'w collaborators \<Rightarrow> 'w world \<Rightarrow> string \<Rightarrow> gvalue \<Rightarrow> (gvalue \<times> error option) \<times> 'w world"
where
  "Hmget L w key val =
     (let (res, w1) = Do L w ''HGETALL'' [VString key];
          (v, err) = redis_Values L res
      in if err \<noteq> None then ((val, err), w1)
         else (let (val', err') = redis_ScanStruct L v val
               in case err' of
                    Some e \<Rightarrow> ((val', err), fmt_Println e w1)
                  | None \<Rightarrow> ((val', err), w1)))"

definition Zrange ::
  "'w collaborators \<Rightarrow> 'w world \<Rightarrow> string \<Rightarrow> int \<Rightarrow> int \<Rightarrow> (reply \<times> error option) \<times> 'w world"
where
  "Zrange L w key from to =
     Do L w ''ZRANGE'' [VString key, VInt from, VInt to, VString ''WITHSCORES'']"

definition Zrevrange ::
  "'w collaborators \<Rightarrow> 'w world \<Rightarrow> string \<Rightarrow> int \<Rightarrow> int \<Rightarrow> (reply \<times> error option) \<times> 'w world"
where
  "Zrevrange L w key from to =
     Do L w ''ZREVRANGE'' [VString key, VInt from, VInt to, VString ''WITHSCORES'']"

definition ZrangeByScore ::
  "'w collaborators \<Rightarrow> 'w world \<Rightarrow> string \<Rightarrow> int \<Rightarrow> int \<Rightarrow> int \<Rightarrow> int
     \<Rightarrow> (reply \<times> error option) \<times> 'w world"
where
  "ZrangeByScore L w key from to offset count =
     Do L w ''ZRANGEBYSCORE''
       [VString key, VInt from, VInt to, VString ''WITHSCORES'',
        VString ''LIMIT'', VInt offset, VInt count]"

definition ZrevrangeByScore ::
  "'w collaborators \<Rightarrow> 'w world \<Rightarrow> string \<Rightarrow> int \<Rightarrow> int \<Rightarrow> int \<Rightarrow> int
     \<Rightarrow> (reply \<times> error option) \<times> 'w world"
where
  "ZrevrangeByScore L w key from to offset count =
     Do L w ''ZREVRANGEBYSCORE''
       [VString key, VInt from, VInt to, VString ''WITHSCORES'',
        VString ''LIMIT'', VInt offset, VInt count]"

subsection \<open>A reference instance of the collaborators\<close>

text \<open>
  A small in-memory store and client, used to run the operations on concrete
  inputs.  The store has no clock: a key written with a positive expiry stays.
  As the client does, \<open>ref_Do\<close> hands an error reply of the store to the caller
  as the \<open>error\<close> result, with a \<open>nil\<close> reply.
\<close>

datatype stored = SText string | SHash "(string \<times> string) list"

type_synonym store = "(string \<times> stored) list"

definition digit_char :: "nat \<Rightarrow> char" where
  "digit_char d = char_of (48 + d)"

fun digits :: "nat \<Rightarrow> string" where
  "digits n = (if n < 10 then [digit_char n] else digits (n div 10) @ [digit_char (n mod 10)])"

definition Itoa :: "int \<Rightarrow> string" where
  "Itoa i = (if i < 0 then CHR ''-'' # digits (nat (- i)) else digits (nat i))"

definition is_digit :: "char \<Rightarrow> bool" where
  "is_digit c = (48 \<le> (of_char c :: nat) \<and> (of_char c :: nat) \<le> 57)"

definition parse_digits :: "string \<Rightarrow> nat option" where
  "parse_digits cs =
     (if cs \<noteq> [] \<and> list_all is_digit cs
      then Some (foldl (\<lambda>a c. 10 * a + (of_char c - 48)) 0 cs)
      else None)"

definition Atoi :: "string \<Rightarrow> int option" where
  "Atoi cs =
     (case cs of
        [] \<Rightarrow> None
      | c # ds \<Rightarrow>
          if c = CHR ''-'' then map_option (\<lambda>n. - int n) (parse_digits ds)
          else map_option int (parse_digits cs))"

fun ref_text :: "gvalue \<Rightarrow> string" where
  "ref_text (VString s) = s"
| "ref_text (VInt n) = Itoa n"
| "ref_text (VInt64 n) = Itoa n"
| "ref_text (VBool b) = (if b then ''1'' else ''0'')"
| "ref_text _ = []"

fun pair_up :: "string list \<Rightarrow> (string \<times> string) list" where
  "pair_up (f # v # rest) = (f, v) # pair_up rest"
| "pair_up _ = []"

definition ref_Do :: "store \<Rightarrow> string \<Rightarrow> gvalue list \<Rightarrow> (reply \<times> error option) \<times> store" where
  "ref_Do st name args =
     (if name = ''SETEX'' then
        (case args of
           [VString k, VInt ttl, v] \<Rightarrow>
             if 0 < ttl then ((RStatus ''OK'', None), (k, SText (ref_text v)) # st)
             else ((RNil, Some (Error ''ERR invalid expire time in setex'')), st)
         | _ \<Rightarrow> ((RNil, Some (Error ''ERR wrong number of arguments'')), st))
      else if name = ''GET'' then
        (case args of
           [VString k] \<Rightarrow>
             (case map_of st k of
                None \<Rightarrow> ((RNil, None), st)
              | Some (SText b) \<Rightarrow> ((RBulk b, None), st)
              | Some (SHash fs) \<Rightarrow> ((RNil, Some (Error ''WRONGTYPE'')), st))
         | _ \<Rightarrow> ((RNil, Some (Error ''ERR wrong number of arguments'')), st))
      else if name = ''EXPIRE'' then
        (case args of
           [VString k, t] \<Rightarrow>
             (case map_of st k of
                None \<Rightarrow> ((RInt 0, None), st)
              | Some x \<Rightarrow> ((RInt 1, None), st))
         | _ \<Rightarrow> ((RNil, Some (Error ''ERR wrong number of arguments'')), st))
      else if name = ''HMSET'' then
        (case args of
           VString k # f # v # rest \<Rightarrow>
             if even (length rest)
             then ((RStatus ''OK'', None), (k, SHash (pair_up (map ref_text (f # v # rest)))) # st)
             else ((RNil, Some (Error ''ERR wrong number of arguments'')), st)
         | _ \<Rightarrow> ((RNil, Some (Error ''ERR wrong number of arguments'')), st))
      else if name = ''HGETALL'' then
        (case args of
           [VString k] \<Rightarrow>
             (case map_of st k of
                None \<Rightarrow> ((RArray [], None), st)
              | Some (SHash fs) \<Rightarrow>
                  ((RArray (concat (map (\<lambda>(f, v). [RBulk f, RBulk v]) fs)), None), st)
              | Some (SText b) \<Rightarrow> ((RNil, Some (Error ''WRONGTYPE'')), st))
         | _ \<Rightarrow> ((RNil, Some (Error ''ERR wrong number of arguments'')), st))
      else ((RNil, Some (Error ''ERR unknown command'')), st))"

definition ErrNil :: error where
  "ErrNil = Error ''redigo: nil returned''"

definition ref_String :: "reply \<times> error option \<Rightarrow> string \<times> error option" where
  "ref_String res =
     (case res of
        (_, Some e) \<Rightarrow> ([], Some e)
      | (RBulk b, None) \<Rightarrow> (b, None)
      | (RStatus t, None) \<Rightarrow> (t, None)
      | (RNil, None) \<Rightarrow> ([], Some ErrNil)
      | (_, None) \<Rightarrow> ([], Some (Error ''redigo: unexpected type for String'')))"

definition ref_Int :: "reply \<times> error option \<Rightarrow> int \<times> error option" where
  "ref_Int res =
     (case res of
        (_, Some e) \<Rightarrow> (0, Some e)
      | (RInt n, None) \<Rightarrow> (n, None)
      | (RBulk b, None) \<Rightarrow>
          (case Atoi b of
             Some n \<Rightarrow> (n, None)
           | None \<Rightarrow> (0, Some (Error ''strconv.ParseInt: invalid syntax'')))
      | (RNil, None) \<Rightarrow> (0, Some ErrNil)
      | (_, None) \<Rightarrow> (0, Some (Error ''redigo: unexpected type for Int'')))"

definition ref_Bool :: "reply \<times> error option \<Rightarrow> bool \<times> error option" where
  "ref_Bool res =
     (case res of
        (_, Some e) \<Rightarrow> (False, Some e)
      | (RInt n, None) \<Rightarrow> (n \<noteq> 0, None)
      | (RNil, None) \<Rightarrow> (False, Some ErrNil)
      | (_, None) \<Rightarrow> (False, Some (Error ''redigo: unexpected type for Bool'')))"

definition ref_Values :: "reply \<times> error option \<Rightarrow> reply list \<times> error option" where
  "ref_Values res =
     (case res of
        (_, Some e) \<Rightarrow> ([], Some e)
      | (RArray rs, None) \<Rightarrow> (rs, None)
      | (RNil, None) \<Rightarrow> ([], Some ErrNil)
      | (_, None) \<Rightarrow> ([], Some (Error ''redigo: unexpected type for Values'')))"

fun bulk_text :: "reply \<Rightarrow> string" where
  "bulk_text (RBulk b) = b"
| "bulk_text _ = []"

definition ref_ScanStruct :: "reply list \<Rightarrow> gvalue \<Rightarrow> gvalue \<times> error option" where
  "ref_ScanStruct src dest =
     (case dest of
        VStruct fs \<Rightarrow>
          if odd (length src)
          then (dest, Some (Error ''redigo.ScanStruct: number of values not a multiple of 2''))
          else (VStruct (map (\<lambda>(f, v). case map_of (pair_up (map bulk_text src)) f of
                                          None \<Rightarrow> (f, v)
                                        | Some b \<Rightarrow> (f, VString b)) fs),
                None)
      | _ \<Rightarrow> (dest, Some (Error ''redigo.ScanStruct: value must be non-nil pointer to a struct'')))"

definition ref_Add :: "gvalue list \<Rightarrow> gvalue \<Rightarrow> gvalue list" where
  "ref_Add args v = args @ [v]"

definition ref_AddFlat :: "gvalue list \<Rightarrow> gvalue \<Rightarrow> gvalue list" where
  "ref_AddFlat args v =
     (case v of
        VStruct fs \<Rightarrow> args @ concat (map (\<lambda>(f, x). [VString f, x]) fs)
      | VList xs \<Rightarrow> args @ xs
      | _ \<Rightarrow> args @ [v])"

text \<open>
  The reference codec covers \<open>null\<close>, booleans and integers; it refuses a channel, as
  the JSON encoder does, with an empty text.
\<close>

definition ref_Marshal :: "gvalue \<Rightarrow> string \<times> error option" where
  "ref_Marshal v =
     (case v of
        VNil \<Rightarrow> (''null'', None)
      | VBool b \<Rightarrow> (if b then ''true'' else ''false'', None)
      | VInt n \<Rightarrow> (Itoa n, None)
      | VInt64 n \<Rightarrow> (Itoa n, None)
      | _ \<Rightarrow> ([], Some (Error ''json: unsupported type'')))"

definition ref_Unmarshal :: "string \<Rightarrow> gvalue \<Rightarrow> gvalue \<times> error option" where
  "ref_Unmarshal data dest =
     (if data = ''null'' then (VNil, None)
      else if data = ''true'' then (VBool True, None)
      else if data = ''false'' then (VBool False, None)
      else (case Atoi data of
              Some n \<Rightarrow> (VInt64 n, None)
            | None \<Rightarrow> (dest, Some (Error ''json: invalid character''))))"

definition ref_lib :: "store collaborators" where
  "ref_lib =
     \<lparr>conn_Do = ref_Do, redis_String = ref_String, redis_Int = ref_Int,
      redis_Bool = ref_Bool, redis_Values = ref_Values,
      redis_ScanStruct = ref_ScanStruct, Args_Add = ref_Add,
      Args_AddFlat = ref_AddFlat, json_Marshal = ref_Marshal,
      json_Unmarshal = ref_Unmarshal\<rparr>"

definition world0 :: "store \<Rightarrow> store world" where
  "world0 st = \<lparr>remote = st, issued = [], stdout = []\<rparr>"

subsection \<open>Properties of the singleton\<close>

lemma New_after_once: "once s \<Longrightarrow> New s ip port password db = (redisInstance s, s)"
  by (simp add: New_def once_Do_def)

lemma New_calls_after_once:
  "once s \<Longrightarrow> New_calls s cs = (replicate (length cs) (redisInstance s), s)"
  by (induction cs) (auto simp: New_after_once)

lemma New_first:
  "New init_process ip port password db =
     (Some 0,
      \<lparr>redisInstance = Some 0, once = True,
       pools = [\<lparr>MaxIdle = 3, IdleTimeout = 240 * Second,
                 Dial_ip = ip, Dial_port = port,
                 Dial_password = password, Dial_db = db\<rparr>],
       handles = [\<lparr>pool = 0\<rparr>], watchers = [0]\<rparr>)"
  by (simp add: New_def once_Do_def New_body_def init_process_def closePool_def)

lemma New_calls_first:
  "New_calls init_process ((ip, port, password, db) # cs) =
     (replicate (Suc (length cs)) (Some 0),
      snd (New init_process ip port password db))"
  by (simp add: New_first New_calls_after_once)

text \<open>
  Claim C1.  In every non-empty sequence of calls to \<open>New\<close> made by a fresh process,
  only the first call builds a pool, a handle and a watcher, from its own
  arguments; the process ends in the state the first call left, so the later calls
  changed nothing whatever their arguments were; every call returns the same
  pointer.  After any sequence of calls, empty or not, the heap holds at most one
  handle.
\<close>

theorem New_builds_once:
  "New_calls init_process ((ip, port, password, db) # cs) =
     (replicate (Suc (length cs)) (Some 0), snd (New init_process ip port password db))
   \<and> pools (snd (New_calls init_process ((ip, port, password, db) # cs))) =
       [\<lparr>MaxIdle = 3, IdleTimeout = 240 * Second, Dial_ip = ip, Dial_port = port,
         Dial_password = password, Dial_db = db\<rparr>]
   \<and> handles (snd (New_calls init_process ((ip, port, password, db) # cs))) = [\<lparr>pool = 0\<rparr>]
   \<and> watchers (snd (New_calls init_process ((ip, port, password, db) # cs))) = [0]
   \<and> length (handles (snd (New_calls init_process calls))) \<le> 1"
proof -
  have one: "length (handles (snd (New_calls init_process calls))) \<le> 1"
  proof (cases calls)
    case Nil
    then show ?thesis by (simp add: init_process_def)
  next
    case (Cons c cs')
    obtain a b c' d where c: "c = (a, b, c', d)" by (cases c) auto
    show ?thesis unfolding Cons c by (simp add: New_calls_first New_first del: New_calls.simps)
  qed
  show ?thesis using one by (simp add: New_calls_first New_first del: New_calls.simps)
qed

text \<open>
  Claim C2.  In a fresh process \<open>GetInstance\<close> panics.  After any non-empty sequence
  of calls to \<open>New\<close> it returns the pointer that each of those calls returned;
  \<open>GetInstance\<close> only reads the state, so every later call returns it again.
\<close>

theorem GetInstance_panics_before_New_same_after:
  "GetInstance init_process = Inl Panic_call_New_first
   \<and> fst (New_calls init_process ((ip, port, password, db) # cs)) =
       replicate (Suc (length cs)) (Some 0)
   \<and> GetInstance (snd (New_calls init_process ((ip, port, password, db) # cs))) = Inr 0"
proof -
  have "GetInstance init_process = Inl Panic_call_New_first"
    by (simp add: GetInstance_def init_process_def)
  moreover have "GetInstance (snd (New init_process ip port password db)) = Inr 0"
    by (simp add: New_first GetInstance_def)
  ultimately show ?thesis
    by (simp only: New_calls_first fst_conv snd_conv simp_thms)
qed

subsection \<open>Properties of the operations\<close>

lemma Do_issued: "issued (snd (Do L w name args)) = issued w @ [(name, args)]"
  by (simp add: Do_def split: prod.splits)

lemma Do_stdout: "stdout (snd (Do L w name args)) = stdout w"
  by (simp add: Do_def split: prod.splits)

lemma Do_result: "fst (Do L w name args) = fst (conn_Do L (remote w) name args)"
  by (simp add: Do_def split: prod.splits)

lemma Do_remote: "remote (snd (Do L w name args)) = snd (conn_Do L (remote w) name args)"
  by (simp add: Do_def split: prod.splits)

lemma GetString_result:
  "fst (GetString L w key) = redis_String L (fst (Do L w ''GET'' [VString key]))"
  by (simp add: GetString_def case_prod_beta)

lemma GetString_world: "snd (GetString L w key) = snd (Do L w ''GET'' [VString key])"
  by (simp add: GetString_def case_prod_beta)

lemma GetInt_result:
  "fst (GetInt L w key) = redis_Int L (fst (Do L w ''GET'' [VString key]))"
  by (simp add: GetInt_def case_prod_beta)

lemma Set_remote_string:
  "remote (snd (Set L w key (VString s) expire)) =
     snd (conn_Do L (remote w) ''SETEX'' [VString key, VInt expire, VString s])"
  by (simp add: Set_def Do_remote case_prod_beta)

lemma Set_remote_int:
  "remote (snd (Set L w key (VInt n) expire)) =
     snd (conn_Do L (remote w) ''SETEX'' [VString key, VInt expire, VInt n])"
  by (simp add: Set_def Do_remote case_prod_beta)

text \<open>
  Claim C3.  If \<open>Get\<close>'s fetch of the stored text succeeds and \<open>json.Unmarshal\<close>
  fails, \<open>Get\<close> returns a \<open>nil\<close> error and writes nothing to standard output.  If
  \<open>Hmget\<close>'s fetch of the field/value list succeeds and \<open>redis.ScanStruct\<close> fails,
  \<open>Hmget\<close> returns a \<open>nil\<close> error, and the only trace of the failure is the line it
  prints.
\<close>

theorem decode_failure_returns_nil:
  "(snd (fst (GetString L w key)) = None \<and>
    snd (json_Unmarshal L (fst (fst (GetString L w key))) val) = Some e
    \<longrightarrow> snd (fst (Get L w key val)) = None
        \<and> stdout (snd (Get L w key val)) = stdout w)
   \<and>
   (snd (redis_Values L (fst (Do L w' ''HGETALL'' [VString key']))) = None \<and>
    snd (redis_ScanStruct L (fst (redis_Values L (fst (Do L w' ''HGETALL'' [VString key'])))) val')
      = Some e'
    \<longrightarrow> snd (fst (Hmget L w' key' val')) = None
        \<and> stdout (snd (Hmget L w' key' val')) = stdout w' @ [error_text e'])"
proof (intro conjI impI)
  assume a: "snd (fst (GetString L w key)) = None \<and>
    snd (json_Unmarshal L (fst (fst (GetString L w key))) val) = Some e"
  show "snd (fst (Get L w key val)) = None"
    using a by (simp add: Get_def case_prod_beta)
  show "stdout (snd (Get L w key val)) = stdout w"
    by (simp add: Get_def case_prod_beta GetString_world Do_stdout)
next
  assume b: "snd (redis_Values L (fst (Do L w' ''HGETALL'' [VString key']))) = None \<and>
    snd (redis_ScanStruct L (fst (redis_Values L (fst (Do L w' ''HGETALL'' [VString key'])))) val')
      = Some e'"
  show "snd (fst (Hmget L w' key' val')) = None"
    using b by (simp add: Hmget_def case_prod_beta)
  show "stdout (snd (Hmget L w' key' val')) = stdout w' @ [error_text e']"
    using b by (simp add: Hmget_def case_prod_beta fmt_Println_def Do_stdout)
qed

theorem decode_failure_returns_nil_witness:
  "(snd (fst (GetString ref_lib (world0 [(''k'', SText ''abc'')]) ''k'')) = None \<and>
    snd (json_Unmarshal ref_lib
          (fst (fst (GetString ref_lib (world0 [(''k'', SText ''abc'')]) ''k''))) VNil)
      = Some (Error ''json: invalid character''))
   \<and> snd (fst (Get ref_lib (world0 [(''k'', SText ''abc'')]) ''k'' VNil)) = None
   \<and> stdout (snd (Get ref_lib (world0 [(''k'', SText ''abc'')]) ''k'' VNil)) = []
   \<and> (snd (redis_Values ref_lib (fst (Do ref_lib (world0 []) ''HGETALL'' [VString ''h'']))) = None \<and>
      snd (redis_ScanStruct ref_lib
            (fst (redis_Values ref_lib (fst (Do ref_lib (world0 []) ''HGETALL'' [VString ''h'']))))
            (VInt 5))
        = Some (Error ''redigo.ScanStruct: value must be non-nil pointer to a struct''))
   \<and> snd (fst (Hmget ref_lib (world0 []) ''h'' (VInt 5))) = None
   \<and> stdout (snd (Hmget ref_lib (world0 []) ''h'' (VInt 5))) =
       [''redigo.ScanStruct: value must be non-nil pointer to a struct'']"
proof -
  have g: "snd (fst (GetString ref_lib (world0 [(''k'', SText ''abc'')]) ''k'')) = None \<and>
    snd (json_Unmarshal ref_lib
          (fst (fst (GetString ref_lib (world0 [(''k'', SText ''abc'')]) ''k''))) VNil)
      = Some (Error ''json: invalid character'')"
    by code_simp
  have h: "snd (redis_Values ref_lib (fst (Do ref_lib (world0 []) ''HGETALL'' [VString ''h'']))) = None \<and>
      snd (redis_ScanStruct ref_lib
            (fst (redis_Values ref_lib (fst (Do ref_lib (world0 []) ''HGETALL'' [VString ''h'']))))
            (VInt 5))
        = Some (Error ''redigo.ScanStruct: value must be non-nil pointer to a struct'')"
    by code_simp
  have s0: "stdout (world0 ([] :: store)) = []" "stdout (world0 [(''k'', SText ''abc'')]) = []"
    by (simp_all add: world0_def)
  note t = decode_failure_returns_nil
             [of ref_lib "world0 [(''k'', SText ''abc'')]" "''k''" VNil
                 "Error ''json: invalid character''" "world0 []" "''h''" "VInt 5"
                 "Error ''redigo.ScanStruct: value must be non-nil pointer to a struct''"]
  from t g h show ?thesis
    by (simp only: s0 error_text.simps append_Nil simp_thms)
qed

text \<open>
  Claim C4.  For every key, value and expiry, \<open>Set\<close> sends exactly one command, a
  \<open>SETEX\<close> with the key, the expiry and a payload: the value itself when it is a
  \<open>string\<close> or an \<open>int\<close>, and otherwise the text \<open>json.Marshal\<close> produced for it,
  as a string.  No branch sends anything else, so nothing is stored without an
  expiry.  The world after \<open>Set\<close> is the world after that one \<open>r.Do\<close>: the pool
  and the remote store are in the state the connection's round trip for this
  \<open>SETEX\<close> left them in, and nothing was printed.
\<close>

theorem Set_issues_one_SETEX:
  "issued (snd (Set L w key val expire)) =
     issued w @
       [(''SETEX'',
         [VString key, VInt expire,
          (case val of
             VString s \<Rightarrow> VString s
           | VInt n \<Rightarrow> VInt n
           | other \<Rightarrow> VString (fst (json_Marshal L other)))])]
   \<and> snd (Set L w key val expire) =
       snd (Do L w ''SETEX''
             [VString key, VInt expire,
              (case val of
                 VString s \<Rightarrow> VString s
               | VInt n \<Rightarrow> VInt n
               | other \<Rightarrow> VString (fst (json_Marshal L other)))])
   \<and> remote (snd (Set L w key val expire)) =
       snd (conn_Do L (remote w) ''SETEX''
             [VString key, VInt expire,
              (case val of
                 VString s \<Rightarrow> VString s
               | VInt n \<Rightarrow> VInt n
               | other \<Rightarrow> VString (fst (json_Marshal L other)))])
   \<and> stdout (snd (Set L w key val expire)) = stdout w"
  by (cases val) (simp_all add: Set_def Do_issued Do_remote Do_stdout case_prod_beta)

text \<open>
  Claim C5.  \<open>Hmset\<close> first sends one \<open>HMSET\<close> whose arguments are the key followed
  by the flattened value.  It then sends \<open>EXPIRE\<close> with the key and the expiry exactly
  when the expiry is positive and the \<open>HMSET\<close> returned no error, and sends nothing
  else.  If the \<open>HMSET\<close> failed, its error is the result; otherwise the result is
  that of the \<open>EXPIRE\<close> when one was sent, and \<open>nil\<close> when none was.  The world
  after \<open>Hmset\<close> is the world after those calls of \<open>r.Do\<close>: the pool and the remote
  store are in the state the connection's round trip for the \<open>HMSET\<close> left them in,
  followed by the round trip for the \<open>EXPIRE\<close> when one was sent.
\<close>

theorem Hmset_commands:
  "issued (snd (Hmset L w key val expire)) =
     issued w @
       (''HMSET'', Args_AddFlat L (Args_Add L [] (VString key)) val) #
       (if 0 < expire \<and>
           snd (fst (Do L w ''HMSET'' (Args_AddFlat L (Args_Add L [] (VString key)) val))) = None
        then [(''EXPIRE'', [VString key, VInt64 expire])] else [])
   \<and> fst (Hmset L w key val expire) =
       (if snd (fst (Do L w ''HMSET'' (Args_AddFlat L (Args_Add L [] (VString key)) val))) \<noteq> None
        then snd (fst (Do L w ''HMSET'' (Args_AddFlat L (Args_Add L [] (VString key)) val)))
        else if 0 < expire
        then snd (fst (Do L (snd (Do L w ''HMSET'' (Args_AddFlat L (Args_Add L [] (VString key)) val)))
                      ''EXPIRE'' [VString key, VInt64 expire]))
        else None)
   \<and> snd (Hmset L w key val expire) =
       (if 0 < expire \<and>
           snd (fst (Do L w ''HMSET'' (Args_AddFlat L (Args_Add L [] (VString key)) val))) = None
        then snd (Do L (snd (Do L w ''HMSET'' (Args_AddFlat L (Args_Add L [] (VString key)) val)))
                   ''EXPIRE'' [VString key, VInt64 expire])
        else snd (Do L w ''HMSET'' (Args_AddFlat L (Args_Add L [] (VString key)) val)))
   \<and> remote (snd (Hmset L w key val expire)) =
       (if 0 < expire \<and>
           snd (fst (conn_Do L (remote w) ''HMSET''
                       (Args_AddFlat L (Args_Add L [] (VString key)) val))) = None
        then snd (conn_Do L
                   (snd (conn_Do L (remote w) ''HMSET''
                           (Args_AddFlat L (Args_Add L [] (VString key)) val)))
                   ''EXPIRE'' [VString key, VInt64 expire])
        else snd (conn_Do L (remote w) ''HMSET''
                    (Args_AddFlat L (Args_Add L [] (VString key)) val)))"
  by (simp add: Hmset_def Do_issued Do_remote Do_result case_prod_beta)

text \<open>
  Claim C6, as amended.  \<open>Expire\<close> sends exactly one command, \<open>EXPIRE\<close> with the key
  and the seconds, and returns only the error of \<open>redis.Bool\<close> applied to the
  outcome; the boolean \<open>redis.Bool\<close> computes is dropped.
\<close>

theorem Expire_returns_error_only:
  "Expire L w key expire =
     (snd (redis_Bool L (fst (Do L w ''EXPIRE'' [VString key, VInt expire]))),
      snd (Do L w ''EXPIRE'' [VString key, VInt expire]))
   \<and> issued (snd (Expire L w key expire)) =
       issued w @ [(''EXPIRE'', [VString key, VInt expire])]"
  by (simp add: Expire_def case_prod_beta Do_issued)

text \<open>
  Claim C6 as stated fails: \<open>Expire\<close> returns the same value for a key that exists,
  where the store applies the expiry, and for a key that does not, where it applies
  none.
\<close>

theorem Expire_applied_counterexample:
  "fst (Expire ref_lib (world0 [(''k'', SText ''abc'')]) ''k'' 10) =
     fst (Expire ref_lib (world0 []) ''k'' 10)
   \<and> fst (redis_Bool ref_lib
            (fst (Do ref_lib (world0 [(''k'', SText ''abc'')]) ''EXPIRE'' [VString ''k'', VInt 10])))
       = True
   \<and> fst (redis_Bool ref_lib
            (fst (Do ref_lib (world0 []) ''EXPIRE'' [VString ''k'', VInt 10])))
       = False"
  by code_simp

text \<open>
  Claim C7.  Take a store in which a \<open>GET\<close> right after a successful \<open>SETEX\<close> of the
  same key answers the text \<open>wire v\<close> the client wrote for the argument \<open>v\<close>, and
  converters \<open>redis.String\<close> and \<open>redis.Int\<close> that read that text back.  Then
  \<open>Set\<close> of a string followed by \<open>GetString\<close> of the key returns the string, and
  \<open>Set\<close> of an \<open>int\<close> followed by \<open>GetInt\<close> of the key returns the integer, both
  with a \<open>nil\<close> error.
\<close>

theorem Set_then_typed_get_roundtrip:
  assumes store_s:
    "\<And>rm. fst (conn_Do L (snd (conn_Do L rm ''SETEX'' [VString key, VInt expire, VString s]))
                  ''GET'' [VString key]) = (RBulk (wire (VString s)), None)"
  and store_n:
    "\<And>rm. fst (conn_Do L (snd (conn_Do L rm ''SETEX'' [VString key, VInt expire, VInt n]))
                  ''GET'' [VString key]) = (RBulk (wire (VInt n)), None)"
  and conv_s: "redis_String L (RBulk (wire (VString s)), None) = (s, None)"
  and conv_n: "redis_Int L (RBulk (wire (VInt n)), None) = (n, None)"
  shows "fst (GetString L (snd (Set L w key (VString s) expire)) key) = (s, None)
       \<and> fst (GetInt L (snd (Set L w key (VInt n) expire)) key) = (n, None)"
  by (simp add: GetString_result GetInt_result Do_result Set_remote_string Set_remote_int
        store_s store_n conv_s conv_n)

theorem Set_then_typed_get_roundtrip_witness:
  "fst (GetString ref_lib (snd (Set ref_lib (world0 []) ''k'' (VString ''abc'') 60)) ''k'')
     = (''abc'', None)
   \<and> fst (GetInt ref_lib (snd (Set ref_lib (world0 []) ''k'' (VInt 42) 60)) ''k'')
     = (42, None)"
proof -
  have store_s: "\<And>rm. fst (conn_Do ref_lib
        (snd (conn_Do ref_lib rm ''SETEX'' [VString ''k'', VInt 60, VString ''abc'']))
        ''GET'' [VString ''k'']) = (RBulk (ref_text (VString ''abc'')), None)"
    by (simp add: ref_lib_def ref_Do_def)
  have store_n: "\<And>rm. fst (conn_Do ref_lib
        (snd (conn_Do ref_lib rm ''SETEX'' [VString ''k'', VInt 60, VInt 42]))
        ''GET'' [VString ''k'']) = (RBulk (ref_text (VInt 42)), None)"
    by (simp add: ref_lib_def ref_Do_def)
  have conv_s: "redis_String ref_lib (RBulk (ref_text (VString ''abc'')), None) = (''abc'', None)"
    by code_simp
  have conv_n: "redis_Int ref_lib (RBulk (ref_text (VInt 42)), None) = (42, None)"
    by code_simp
  show ?thesis
    by (rule Set_then_typed_get_roundtrip [of ref_lib "''k''" 60 "''abc''" ref_text 42,
          OF store_s store_n conv_s conv_n])
qed

text \<open>
  Claim C8.  Each of \<open>Zrange\<close>, \<open>Zrevrange\<close>, \<open>ZrangeByScore\<close> and
  \<open>ZrevrangeByScore\<close> sends exactly one command, with \<open>WITHSCORES\<close> among its
  arguments, and returns the reply and the error of the connection as they came.
\<close>

theorem Zrange_family_WITHSCORES:
  "fst (Zrange L w key from to) =
     fst (conn_Do L (remote w) ''ZRANGE'' [VString key, VInt from, VInt to, VString ''WITHSCORES''])
   \<and> issued (snd (Zrange L w key from to)) =
       issued w @ [(''ZRANGE'', [VString key, VInt from, VInt to, VString ''WITHSCORES''])]
   \<and> fst (Zrevrange L w key from to) =
       fst (conn_Do L (remote w) ''ZREVRANGE''
              [VString key, VInt from, VInt to, VString ''WITHSCORES''])
   \<and> issued (snd (Zrevrange L w key from to)) =
       issued w @ [(''ZREVRANGE'', [VString key, VInt from, VInt to, VString ''WITHSCORES''])]
   \<and> fst (ZrangeByScore L w key from to offset count) =
       fst (conn_Do L (remote w) ''ZRANGEBYSCORE''
              [VString key, VInt from, VInt to, VString ''WITHSCORES'',
               VString ''LIMIT'', VInt offset, VInt count])
   \<and> issued (snd (ZrangeByScore L w key from to offset count)) =
       issued w @ [(''ZRANGEBYSCORE'',
                    [VString key, VInt from, VInt to, VString ''WITHSCORES'',
                     VString ''LIMIT'', VInt offset, VInt count])]
   \<and> fst (ZrevrangeByScore L w key from to offset count) =
       fst (conn_Do L (remote w) ''ZREVRANGEBYSCORE''
              [VString key, VInt from, VInt to, VString ''WITHSCORES'',
               VString ''LIMIT'', VInt offset, VInt count])
   \<and> issued (snd (ZrevrangeByScore L w key from to offset count)) =
       issued w @ [(''ZREVRANGEBYSCORE'',
                    [VString key, VInt from, VInt to, VString ''WITHSCORES'',
                     VString ''LIMIT'', VInt offset, VInt count])]"
  by (simp add: Zrange_def Zrevrange_def ZrangeByScore_def ZrevrangeByScore_def
        Do_result Do_issued)

text \<open>
  Claim C9, at a failing input.  \<open>Set\<close> of a channel with expiry \<open>0\<close>: the encoding
  fails with an empty text, \<open>Set\<close> still sends the \<open>SETEX\<close> with that text, the
  command fails, and \<open>Set\<close> returns a \<open>nil\<close> error.
\<close>

theorem Set_default_drops_SETEX_error:
  "json_Marshal ref_lib (VChan 0) = ([], Some (Error ''json: unsupported type''))
   \<and> issued (snd (Set ref_lib (world0 []) ''k'' (VChan 0) 0)) =
       [(''SETEX'', [VString ''k'', VInt 0, VString []])]
   \<and> fst (Do ref_lib (world0 []) ''SETEX'' [VString ''k'', VInt 0, VString []]) =
       (RNil, Some (Error ''ERR invalid expire time in setex''))
   \<and> fst (Set ref_lib (world0 []) ''k'' (VChan 0) 0) = (RNil, None)"
  by code_simp

text \<open>
  Claim C10.  If \<open>Get\<close>'s fetch fails, \<open>Get\<close> returns that error, the caller's
  location holds what it held before, and nothing was done beyond the fetch.
\<close>

theorem Get_fetch_failure_leaves_val:
  "snd (fst (GetString L w key)) = Some e \<Longrightarrow>
     fst (Get L w key val) = (val, Some e) \<and> snd (Get L w key val) = snd (GetString L w key)"
  by (simp add: Get_def case_prod_beta)

theorem Get_fetch_failure_leaves_val_witness:
  "snd (fst (GetString ref_lib (world0 []) ''k'')) = Some ErrNil
   \<and> fst (Get ref_lib (world0 []) ''k'' (VInt 7)) = (VInt 7, Some ErrNil)
   \<and> snd (Get ref_lib (world0 []) ''k'' (VInt 7)) = snd (GetString ref_lib (world0 []) ''k'')"
proof -
  have h: "snd (fst (GetString ref_lib (world0 []) ''k'')) = Some ErrNil"
    by code_simp
  from Get_fetch_failure_leaves_val [OF h, of "VInt 7"] h show ?thesis
    by (simp only: simp_thms)
qed

end
